theory Spec2Isabelle
  imports Complex_Main
begin

section \<open>The farm optimizer: data model\<close>

text \<open>
  A shallow embedding of \<^verbatim>\<open>farm_optimizer.py\<close>. Python floats are modelled as
  \<^typ>\<open>real\<close> (exact arithmetic, no rounding, no infinities or NaN), Python ints as
  \<^typ>\<open>int\<close>, strings as \<^typ>\<open>string\<close>, a raised exception as the \<open>Inl\<close> branch of a
  sum, a dictionary that is looked up by key as a map, and a dictionary that is only
  iterated through \<^verbatim>\<open>.values()\<close> as the list of its values in insertion order.
\<close>

datatype error = AttributeError | NameError | KeyError | TypeError | ValueError | ZeroDivisionError

text \<open>Sequencing of statements that may raise: the first exception ends the
  computation.\<close>

fun and_then :: "error + 'a \<Rightarrow> ('a \<Rightarrow> error + 'b) \<Rightarrow> error + 'b" where
  "and_then (Inl e) f = Inl e"
| "and_then (Inr x) f = f x"

datatype PowerTimeOfUse = DAYTIME_ONLY | NIGHT_ONLY | ANY_TIME

datatype Season = SPRING | SUMMER | FALL | WINTER

text \<open>\<^verbatim>\<open>Season.from_month\<close>: \<^verbatim>\<open>season_map[month % 4]\<close>. The month comes from
  \<^verbatim>\<open>range(...)\<close>, so it is a natural number. The estimator's
  \<^verbatim>\<open>Season(["spring", "summer", "fall", "winter"][month % 4])\<close> is the same function.\<close>

definition from_month :: "nat \<Rightarrow> Season" where
  "from_month month =
     (if month mod 4 = 0 then SPRING
      else if month mod 4 = 1 then SUMMER
      else if month mod 4 = 2 then FALL
      else WINTER)"

record PowerUsage =
  kwh_daily :: real
  time_of_use :: PowerTimeOfUse

record MarketConnection =
  conn_name :: string
  product_types :: "string list"
  sales_multiplier :: real

text \<open>The value of an attribute that starts as a \<^verbatim>\<open>bool\<close> and becomes a float when an
  upgrade adds an impact to it (\<^verbatim>\<open>True + 0.5 == 1.5\<close>).\<close>

datatype pyflag = PyBool bool | PyFloat real

fun truthy :: "pyflag \<Rightarrow> bool" where
  "truthy (PyBool b) = b"
| "truthy (PyFloat x) = (x \<noteq> 0)"

fun flag_number :: "pyflag \<Rightarrow> real" where
  "flag_number (PyBool b) = (if b then 1 else 0)"
| "flag_number (PyFloat x) = x"

text \<open>\<^verbatim>\<open>Resources\<close>. \<^verbatim>\<open>investment_period_months\<close> is annotated \<^verbatim>\<open>int\<close>, but an upgrade
  may store a float there, and the program only multiplies it with a float: it is a
  number. \<^verbatim>\<open>market_connections\<close> defaults to \<^verbatim>\<open>None\<close>.\<close>

record Resources =
  solar_power_kw :: real
  battery_capacity_kwh :: real
  daytime_power_available_kwh :: real
  water_distance_miles :: real
  truck_mpg :: real
  initial_soil :: real
  available_money_monthly :: real
  investment_period_months :: real
  work_hours_daily :: "real \<times> real"
  outdoor_space_acres :: real
  indoor_space_sqft :: real
  has_automation_skills :: pyflag
  climate_controlled_sqft :: real
  market_connections :: "MarketConnection list option"
  reinvestment_rate :: real
  target_savings :: real

text \<open>\<^verbatim>\<open>InfrastructureUpgrade\<close>. Both dictionaries are maps: the dataclass's \<^verbatim>\<open>==\<close>
  (used by \<^verbatim>\<open>upgrade not in planned_upgrades\<close>) compares them by content, as equality
  of maps does. \<^verbatim>\<open>__post_init__\<close> replaces a \<^verbatim>\<open>None\<close> table of seasonal benefits by the
  table that is 1.0 everywhere, so the field always holds a dictionary.\<close>

record InfrastructureUpgrade =
  upgrade_name :: string
  cost :: real
  resource_impacts :: "string \<rightharpoonup> real"
  monthly_operating_cost :: real
  seasonal_benefits :: "Season \<rightharpoonup> real"

text \<open>\<^verbatim>\<open>Project\<close>. The fields are the dataclass's, in its order. \<^verbatim>\<open>funded_so_far\<close> is
  not a field of the dataclass and no constructor call sets it: the simulation loop
  reads \<^verbatim>\<open>project.funded_so_far\<close> all the same. \<open>None\<close> is the absent attribute (what
  every object built by \<^verbatim>\<open>Project(...)\<close> has), \<open>Some x\<close> an attribute that somebody
  assigned on the object from outside.\<close>

record Project =
  name :: string
  setup_cost :: real
  monthly_cost :: real
  monthly_revenue :: real
  monthly_savings :: real
  space_required_sqft :: real
  is_indoor :: bool
  daily_hours :: real
  water_gallons_daily :: real
  power_usage :: PowerUsage
  startup_time_months :: int
  knowledge_required :: int
  sustainability_score :: int
  synergy_projects :: "string list"
  scalability :: int
  automation_potential :: int
  product_type :: string
  base_sales_probability :: real
  seasonal_multipliers :: "Season \<rightharpoonup> real"
  climate_controlled_benefit :: real
  current_stage :: string
  funded_so_far :: "real option"

text \<open>\<^verbatim>\<open>Project.update_stage\<close>.\<close>

definition update_stage :: "Project \<Rightarrow> Project" where
  "update_stage p =
     (if current_stage p = ''setup'' \<and> startup_time_months p = 0
      then p\<lparr>current_stage := ''production''\<rparr>
      else if current_stage p = ''setup''
      then p\<lparr>startup_time_months := startup_time_months p - 1\<rparr>
      else p)"

section \<open>Feasibility checker, cost model, revenue model\<close>

text \<open>The two sums of \<^verbatim>\<open>check_power_feasibility\<close>, under the names of its locals.\<close>

definition daytime_power :: "Project list \<Rightarrow> real" where
  "daytime_power projects =
     sum_list (map (\<lambda>p. kwh_daily (power_usage p))
       (filter (\<lambda>p. time_of_use (power_usage p) = DAYTIME_ONLY) projects))"

definition battery_power :: "Project list \<Rightarrow> real" where
  "battery_power projects =
     sum_list (map (\<lambda>p. kwh_daily (power_usage p))
       (filter (\<lambda>p. time_of_use (power_usage p) \<in> set [NIGHT_ONLY, ANY_TIME]) projects))"

definition check_power_feasibility :: "Resources \<Rightarrow> Project list \<Rightarrow> bool" where
  "check_power_feasibility r projects =
     (daytime_power projects \<le> daytime_power_available_kwh r \<and>
      battery_power projects \<le> battery_capacity_kwh r * 0.8)"

text \<open>\<^verbatim>\<open>calculate_water_costs\<close>. \<^verbatim>\<open>3.50 / self.resources.truck_mpg\<close> raises
  \<^verbatim>\<open>ZeroDivisionError\<close> when the fuel economy is 0.\<close>

definition calculate_water_costs :: "Resources \<Rightarrow> real \<Rightarrow> error + real" where
  "calculate_water_costs r gallons_daily =
     (let trips_per_month = (gallons_daily * 30) / 100;
          miles_per_month = trips_per_month * water_distance_miles r * 2
      in if truck_mpg r = 0 then Inl ZeroDivisionError
         else Inr (miles_per_month * (3.5 / truck_mpg r)))"

text \<open>Python's \<^verbatim>\<open>max\<close> over a sequence of numbers; it raises \<^verbatim>\<open>ValueError\<close> on an empty
  one.\<close>

fun py_max :: "real list \<Rightarrow> error + real" where
  "py_max [] = Inl ValueError"
| "py_max (x # xs) = Inr (fold max xs x)"

text \<open>\<^verbatim>\<open>relevant_connections\<close> of \<^verbatim>\<open>calculate_market_adjusted_revenue\<close>.\<close>

definition relevant_connections :: "MarketConnection list \<Rightarrow> Project \<Rightarrow> MarketConnection list" where
  "relevant_connections conns project =
     filter (\<lambda>conn. product_type project \<in> set (product_types conn)) conns"

text \<open>\<^verbatim>\<open>calculate_market_adjusted_revenue\<close>. \<^verbatim>\<open>project.seasonal_multipliers[season]\<close>
  raises \<^verbatim>\<open>KeyError\<close> when the table has no entry for the season. A \<^verbatim>\<open>None\<close> or empty
  list of market connections is falsy.\<close>

definition calculate_market_adjusted_revenue :: "Resources \<Rightarrow> Project \<Rightarrow> Season \<Rightarrow> error + real" where
  "calculate_market_adjusted_revenue r project season =
     (let base_revenue = monthly_revenue project in
      case seasonal_multipliers project season of
        None \<Rightarrow> Inl KeyError
      | Some m \<Rightarrow>
          (let revenue = base_revenue * m;
               revenue1 =
                 (if is_indoor project \<and> space_required_sqft project \<le> climate_controlled_sqft r
                  then revenue * climate_controlled_benefit project else revenue)
           in and_then
                (case market_connections r of
                   None \<Rightarrow> Inr revenue1
                 | Some conns \<Rightarrow>
                     (if conns = [] then Inr revenue1
                      else if relevant_connections conns project = [] then Inr revenue1
                      else and_then (py_max (map sales_multiplier (relevant_connections conns project)))
                             (\<lambda>max_multiplier. Inr (revenue1 * max_multiplier))))
                (\<lambda>revenue2. Inr (revenue2 * base_sales_probability project))))"

section \<open>Infrastructure ROI estimator and scoring function\<close>

text \<open>The inner loop of \<^verbatim>\<open>calculate_infrastructure_roi\<close> (\<^verbatim>\<open>for project in
  current_projects\<close>), threading \<^verbatim>\<open>total_benefit\<close>. The current revenue of an indoor
  project is computed before the upgrade's impact map is looked at, so its
  \<^verbatim>\<open>KeyError\<close> comes first.\<close>

fun project_benefits ::
  "Resources \<Rightarrow> InfrastructureUpgrade \<Rightarrow> Season \<Rightarrow> Project list \<Rightarrow> real \<Rightarrow> error + real" where
  "project_benefits r upgrade season [] total_benefit = Inr total_benefit"
| "project_benefits r upgrade season (project # rest) total_benefit =
     (if is_indoor project then
        (case calculate_market_adjusted_revenue r project season of
           Inl e \<Rightarrow> Inl e
         | Inr current_revenue \<Rightarrow>
             (if resource_impacts upgrade ''climate_controlled_sqft'' \<noteq> None then
                (case seasonal_benefits upgrade season of
                   None \<Rightarrow> Inl KeyError
                 | Some b \<Rightarrow>
                     project_benefits r upgrade season rest
                       (total_benefit + (current_revenue * b - current_revenue)))
              else project_benefits r upgrade season rest total_benefit))
      else project_benefits r upgrade season rest total_benefit)"

text \<open>The outer loop (\<^verbatim>\<open>for month in range(projection_months)\<close>).\<close>

fun month_benefits ::
  "Resources \<Rightarrow> InfrastructureUpgrade \<Rightarrow> Project list \<Rightarrow> nat list \<Rightarrow> real \<Rightarrow> error + real" where
  "month_benefits r upgrade current [] total_benefit = Inr total_benefit"
| "month_benefits r upgrade current (month # months) total_benefit =
     (case project_benefits r upgrade (from_month month) current total_benefit of
        Inl e \<Rightarrow> Inl e
      | Inr total_benefit' \<Rightarrow> month_benefits r upgrade current months total_benefit')"

text \<open>\<^verbatim>\<open>total_cost\<close> of the estimator.\<close>

definition total_cost :: "InfrastructureUpgrade \<Rightarrow> int \<Rightarrow> real" where
  "total_cost upgrade projection_months =
     cost upgrade + monthly_operating_cost upgrade * of_int projection_months"

text \<open>\<^verbatim>\<open>calculate_infrastructure_roi\<close>. \<^verbatim>\<open>range\<close> of a negative number is empty.\<close>

definition calculate_infrastructure_roi ::
  "Resources \<Rightarrow> InfrastructureUpgrade \<Rightarrow> Project list \<Rightarrow> int \<Rightarrow> error + real" where
  "calculate_infrastructure_roi r upgrade current projection_months =
     (case month_benefits r upgrade current [0..<nat projection_months] 0 of
        Inl e \<Rightarrow> Inl e
      | Inr total_benefit \<Rightarrow>
          Inr (if total_cost upgrade projection_months > 0
               then (total_benefit - total_cost upgrade projection_months)
                      / total_cost upgrade projection_months
               else 0))"

text \<open>\<^verbatim>\<open>calculate_project_score\<close>. The division by \<^verbatim>\<open>project.setup_cost\<close> has no
  guard.\<close>

definition calculate_project_score :: "Resources \<Rightarrow> Project \<Rightarrow> Project list \<Rightarrow> error + real" where
  "calculate_project_score r project selected_projects =
     (case calculate_water_costs r (water_gallons_daily project) of
        Inl e \<Rightarrow> Inl e
      | Inr monthly_water_cost \<Rightarrow>
          (let monthly_profit = monthly_revenue project + monthly_savings project
                                 - monthly_cost project - monthly_water_cost
          in if setup_cost project = 0 then Inl ZeroDivisionError
             else
               let simple_roi = monthly_profit / setup_cost project;
                   synergy_bonus = length (filter
                       (\<lambda>p. name project \<in> set (synergy_projects p)
                             \<or> name p \<in> set (synergy_projects project)) selected_projects);
                   automation_bonus =
                     (if truthy (has_automation_skills r)
                      then of_int (automation_potential project) / 10 else 0);
                   scalability_bonus = of_int (scalability project) / 10
               in Inr (simple_roi * 0.4 + of_nat synergy_bonus * 0.2
                       + automation_bonus * 0.2 + scalability_bonus * 0.2)))"

section \<open>The simulation loop\<close>

subsection \<open>Applying an upgrade to the resources\<close>

text \<open>The names every \<^verbatim>\<open>Resources\<close> object answers \<^verbatim>\<open>hasattr\<close> for besides its
  sixteen fields: the methods and special attributes of a dataclass instance (CPython
  3.11). None of their values can be added to a float.\<close>

definition builtin_attributes :: "string list" where
  "builtin_attributes =
     [''__annotations__'', ''__class__'', ''__dataclass_fields__'', ''__dataclass_params__'',
      ''__delattr__'', ''__dict__'', ''__dir__'', ''__doc__'', ''__eq__'', ''__format__'',
      ''__ge__'', ''__getattribute__'', ''__getstate__'', ''__gt__'', ''__hash__'',
      ''__init__'', ''__init_subclass__'', ''__le__'', ''__lt__'', ''__match_args__'',
      ''__module__'', ''__ne__'', ''__new__'', ''__reduce__'', ''__reduce_ex__'',
      ''__repr__'', ''__setattr__'', ''__sizeof__'', ''__str__'', ''__subclasshook__'',
      ''__weakref__'']"

text \<open>The attributes whose value plus a float raises \<^verbatim>\<open>TypeError\<close>: the tuple, the
  list (or \<^verbatim>\<open>None\<close>) and the built-in ones.\<close>

definition non_numeric_attributes :: "string list" where
  "non_numeric_attributes = [''work_hours_daily'', ''market_connections''] @ builtin_attributes"

text \<open>\<^verbatim>\<open>setattr(resources, k, getattr(resources, k) + impact)\<close> on a numeric attribute
  \<open>k\<close> whose value is \<open>v\<close>, when the impact map has the key; no change otherwise.\<close>

definition bump :: "(string \<rightharpoonup> real) \<Rightarrow> string \<Rightarrow> real \<Rightarrow> real" where
  "bump impacts k v = (case impacts k of None \<Rightarrow> v | Some impact \<Rightarrow> v + impact)"

text \<open>The loop \<^verbatim>\<open>for resource, impact in best_upgrade.resource_impacts.items()\<close>. The
  keys of a dictionary are distinct and each key changes the attribute of its own name
  only, so the order of the items does not matter: every numeric attribute named by a
  key gets its impact added, a key that names no attribute (\<^verbatim>\<open>hasattr\<close> is false) is
  skipped, and a key that names a non-numeric attribute raises \<^verbatim>\<open>TypeError\<close>, which
  ends the run whatever was assigned before.\<close>

definition apply_resource_impacts :: "(string \<rightharpoonup> real) \<Rightarrow> Resources \<Rightarrow> error + Resources" where
  "apply_resource_impacts impacts r =
     (if list_ex (\<lambda>k. impacts k \<noteq> None) non_numeric_attributes then Inl TypeError
      else Inr
        \<lparr>solar_power_kw = bump impacts ''solar_power_kw'' (solar_power_kw r),
         battery_capacity_kwh = bump impacts ''battery_capacity_kwh'' (battery_capacity_kwh r),
         daytime_power_available_kwh =
           bump impacts ''daytime_power_available_kwh'' (daytime_power_available_kwh r),
         water_distance_miles = bump impacts ''water_distance_miles'' (water_distance_miles r),
         truck_mpg = bump impacts ''truck_mpg'' (truck_mpg r),
         initial_soil = bump impacts ''initial_soil'' (initial_soil r),
         available_money_monthly =
           bump impacts ''available_money_monthly'' (available_money_monthly r),
         investment_period_months =
           bump impacts ''investment_period_months'' (investment_period_months r),
         work_hours_daily = work_hours_daily r,
         outdoor_space_acres = bump impacts ''outdoor_space_acres'' (outdoor_space_acres r),
         indoor_space_sqft = bump impacts ''indoor_space_sqft'' (indoor_space_sqft r),
         has_automation_skills =
           (case impacts ''has_automation_skills'' of
              None \<Rightarrow> has_automation_skills r
            | Some impact \<Rightarrow> PyFloat (flag_number (has_automation_skills r) + impact)),
         climate_controlled_sqft =
           bump impacts ''climate_controlled_sqft'' (climate_controlled_sqft r),
         market_connections = market_connections r,
         reinvestment_rate = bump impacts ''reinvestment_rate'' (reinvestment_rate r),
         target_savings = bump impacts ''target_savings'' (target_savings r)\<rparr>)"

subsection \<open>The state of the loop\<close>

text \<open>One entry of \<^verbatim>\<open>financial_projection['monthly_details']\<close>.\<close>

record monthly_report =
  month :: nat
  actions :: "string list"
  profit :: real
  savings :: real

text \<open>The dictionary \<^verbatim>\<open>financial_projection\<close>, one field per key.\<close>

record financial_projection =
  monthly_details :: "monthly_report list"
  monthly_profits :: "real list"
  accumulated_savings :: "real list"
  infrastructure_investments :: "real list"
  well_savings :: "real list"

text \<open>What the loop carries from one month to the next: \<^verbatim>\<open>self.resources\<close>, the
  values of \<^verbatim>\<open>self.projects\<close> in insertion order (the loop changes the objects, never
  the keys), and the locals \<^verbatim>\<open>current_projects\<close>, \<^verbatim>\<open>planned_upgrades\<close>,
  \<^verbatim>\<open>available_budget\<close>, \<^verbatim>\<open>accumulated_savings\<close> (here \<open>savings_total\<close>) and
  \<^verbatim>\<open>financial_projection\<close>. The last three fields are not data of the program: they
  record the values the locals \<^verbatim>\<open>monthly_revenue\<close>, \<^verbatim>\<open>monthly_costs\<close> and
  \<^verbatim>\<open>water_costs\<close> took in each iteration, of which the program keeps only the
  difference (\<^verbatim>\<open>monthly_profit\<close>). An element of \<^verbatim>\<open>current_projects\<close> would be an
  object of the catalog; the program never puts one there (the list stays empty, see
  \<open>no_active_projects\<close> below), so the two lists are kept apart.\<close>

record loop_state =
  self_resources :: Resources
  self_projects :: "Project list"
  current_projects :: "Project list"
  planned_upgrades :: "InfrastructureUpgrade list"
  available_budget :: real
  savings_total :: real
  projection :: financial_projection
  revenue_terms :: "real list"
  cost_terms :: "real list"
  water_terms :: "real list"

subsection \<open>The steps of one month\<close>

text \<open>The first inner loop: \<^verbatim>\<open>project.update_stage()\<close>, then the revenue of a project
  in production is \<^verbatim>\<open>calculate_monthly_revenue(project)\<close>, a name that the module
  defines nowhere (\<^verbatim>\<open>NameError\<close>), and 0 for the others.\<close>

fun advance_projects :: "Project list \<Rightarrow> error + Project list" where
  "advance_projects [] = Inr []"
| "advance_projects (project # rest) =
     (let p = update_stage project in
      if current_stage p = ''production'' then Inl NameError
      else and_then (advance_projects rest) (\<lambda>rest'. Inr (p\<lparr>monthly_revenue := 0\<rparr> # rest')))"

text \<open>\<^verbatim>\<open>project not in current_projects\<close>: the dataclass's \<^verbatim>\<open>==\<close> compares the fields, of
  which \<^verbatim>\<open>funded_so_far\<close> is none.\<close>

definition project_in :: "Project \<Rightarrow> Project list \<Rightarrow> bool" where
  "project_in p ps = list_ex (\<lambda>q. q\<lparr>funded_so_far := None\<rparr> = p\<lparr>funded_so_far := None\<rparr>) ps"

text \<open>The funding loop over \<^verbatim>\<open>self.projects.values()\<close>: it returns the catalog's
  objects as it leaves them, the budget and the actions. Reading
  \<^verbatim>\<open>project.funded_so_far\<close> raises \<^verbatim>\<open>AttributeError\<close> on an object without the
  attribute.\<close>

fun fund_projects ::
  "Project list \<Rightarrow> Project list \<Rightarrow> real \<Rightarrow> string list
     \<Rightarrow> error + (Project list \<times> real \<times> string list)" where
  "fund_projects current [] budget acts = Inr ([], budget, acts)"
| "fund_projects current (project # rest) budget acts =
     (if \<not> project_in project current \<and> current_stage project = ''setup'' then
        (case funded_so_far project of
           None \<Rightarrow> Inl AttributeError
         | Some funded \<Rightarrow>
             (let required_funds = setup_cost project - funded in
              if required_funds \<le> budget then
                (let funded' = funded + required_funds;
                     p1 = project\<lparr>funded_so_far := Some funded'\<rparr>;
                     p2 = (if funded' \<ge> setup_cost project
                           then p1\<lparr>current_stage := ''growth''\<rparr> else p1)
                 in and_then
                      (fund_projects current rest (budget - required_funds)
                         (acts @ [''Funded '' @ name project]))
                      (\<lambda>(rest', budget', acts'). Inr (p2 # rest', budget', acts')))
              else and_then (fund_projects current rest budget acts)
                     (\<lambda>(rest', budget', acts'). Inr (project # rest', budget', acts'))))
      else and_then (fund_projects current rest budget acts)
             (\<lambda>(rest', budget', acts'). Inr (project # rest', budget', acts')))"

text \<open>\<^verbatim>\<open>sum(f(p) for p in ps)\<close> where \<open>f\<close> may raise.\<close>

fun sum_err :: "('a \<Rightarrow> error + real) \<Rightarrow> 'a list \<Rightarrow> error + real" where
  "sum_err f [] = Inr 0"
| "sum_err f (x # xs) = and_then (f x) (\<lambda>v. and_then (sum_err f xs) (\<lambda>w. Inr (v + w)))"

text \<open>The keys that \<^verbatim>\<open>max(..., key=...)\<close> computes, element by element.\<close>

fun map_err :: "('a \<Rightarrow> error + 'b) \<Rightarrow> 'a list \<Rightarrow> error + 'b list" where
  "map_err f [] = Inr []"
| "map_err f (x # xs) = and_then (f x) (\<lambda>v. and_then (map_err f xs) (\<lambda>vs. Inr (v # vs)))"

text \<open>Python's \<^verbatim>\<open>max\<close> keeps the element it holds unless a later key is strictly
  greater: of equal keys the first wins.\<close>

fun best_of :: "'a \<Rightarrow> real \<Rightarrow> ('a \<times> real) list \<Rightarrow> 'a" where
  "best_of b kb [] = b"
| "best_of b kb ((x, kx) # rest) = (if kx > kb then best_of x kx rest else best_of b kb rest)"

definition affordable_upgrades ::
  "InfrastructureUpgrade list \<Rightarrow> InfrastructureUpgrade list \<Rightarrow> real \<Rightarrow> InfrastructureUpgrade list" where
  "affordable_upgrades upgrades planned reinvestment_amount =
     filter (\<lambda>upgrade. upgrade \<notin> set planned \<and> cost upgrade \<le> reinvestment_amount) upgrades"

text \<open>\<^verbatim>\<open>max(affordable_upgrades, key=lambda u: self.calculate_infrastructure_roi(u,
  current_projects, projection_months - month))\<close>.\<close>

definition best_upgrade ::
  "Resources \<Rightarrow> Project list \<Rightarrow> int \<Rightarrow> InfrastructureUpgrade list \<Rightarrow> error + InfrastructureUpgrade" where
  "best_upgrade r current horizon affordable =
     and_then (map_err (\<lambda>u. calculate_infrastructure_roi r u current horizon) affordable)
       (\<lambda>keys. case zip affordable keys of
                  [] \<Rightarrow> Inl ValueError
                | (u, k) # rest \<Rightarrow> Inr (best_of u k rest))"

text \<open>The block under \<^verbatim>\<open>if affordable_upgrades:\<close>: the list of planned upgrades, the
  reinvestment amount, the resources and the actions as the block leaves them.\<close>

definition implement_upgrade ::
  "InfrastructureUpgrade list \<Rightarrow> int \<Rightarrow> Resources \<Rightarrow> Project list \<Rightarrow> InfrastructureUpgrade list
     \<Rightarrow> real \<Rightarrow> string list
     \<Rightarrow> error + (InfrastructureUpgrade list \<times> real \<times> Resources \<times> string list)" where
  "implement_upgrade upgrades horizon r current planned reinvestment_amount acts =
     (let affordable = affordable_upgrades upgrades planned reinvestment_amount in
      if affordable = [] then Inr (planned, reinvestment_amount, r, acts)
      else and_then (best_upgrade r current horizon affordable)
             (\<lambda>best. and_then (apply_resource_impacts (resource_impacts best) r)
                (\<lambda>r'. Inr (planned @ [best], reinvestment_amount - cost best, r',
                            acts @ [''Implemented upgrade: '' @ upgrade_name best]))))"

text \<open>The five appends at the end of an iteration.\<close>

definition record_month ::
  "financial_projection \<Rightarrow> monthly_report \<Rightarrow> real \<Rightarrow> real \<Rightarrow> real \<Rightarrow> financial_projection" where
  "record_month fp report monthly_profit accumulated invested =
     \<lparr>monthly_details = monthly_details fp @ [report],
      monthly_profits = monthly_profits fp @ [monthly_profit],
      accumulated_savings = accumulated_savings fp @ [accumulated],
      infrastructure_investments = infrastructure_investments fp @ [invested],
      well_savings = well_savings fp @ [accumulated]\<rparr>"

text \<open>One iteration of \<^verbatim>\<open>for month in range(projection_months)\<close>. The savings split
  reads \<^verbatim>\<open>self.resources.reinvestment_rate\<close> after the upgrade was applied.\<close>

definition period :: "InfrastructureUpgrade list \<Rightarrow> int \<Rightarrow> nat \<Rightarrow> loop_state \<Rightarrow> error + loop_state" where
  "period upgrades projection_months month_index s =
     (let season = from_month month_index in
      and_then (advance_projects (current_projects s)) (\<lambda>current.
      and_then (fund_projects current (self_projects s) (available_budget s) [])
        (\<lambda>(catalog, budget, funded_actions).
      and_then (sum_err (\<lambda>p. calculate_market_adjusted_revenue (self_resources s) p season) current)
        (\<lambda>revenue_sum.
      and_then (sum_err (\<lambda>p. calculate_water_costs (self_resources s) (water_gallons_daily p)) current)
        (\<lambda>water_costs.
      let monthly_costs = sum_list (map monthly_cost current);
          monthly_profit = revenue_sum - monthly_costs - water_costs;
          reinvestment_amount = monthly_profit + budget
      in and_then
           (implement_upgrade upgrades (projection_months - int month_index) (self_resources s)
              current (planned_upgrades s) reinvestment_amount funded_actions)
           (\<lambda>(planned, reinvestment, r', acts).
              let savings_amount = reinvestment * (1 - reinvestment_rate r');
                  accumulated = savings_total s + savings_amount;
                  report = \<lparr>month = month_index + 1, actions = acts,
                            profit = monthly_profit, savings = accumulated\<rparr>
              in Inr \<lparr>self_resources = r', self_projects = catalog,
                      current_projects = current, planned_upgrades = planned,
                      available_budget = reinvestment * reinvestment_rate r',
                      savings_total = accumulated,
                      projection = record_month (projection s) report monthly_profit
                                     accumulated (sum_list (map cost planned)),
                      revenue_terms = revenue_terms s @ [revenue_sum],
                      cost_terms = cost_terms s @ [monthly_costs],
                      water_terms = water_terms s @ [water_costs]\<rparr>))))))"

subsection \<open>The run\<close>

fun run_months ::
  "InfrastructureUpgrade list \<Rightarrow> int \<Rightarrow> nat list \<Rightarrow> loop_state \<Rightarrow> error + loop_state" where
  "run_months upgrades projection_months [] s = Inr s"
| "run_months upgrades projection_months (month_index # rest) s =
     and_then (period upgrades projection_months month_index s)
       (run_months upgrades projection_months rest)"

text \<open>The state before the loop. The locals \<^verbatim>\<open>available_hours\<close>,
  \<^verbatim>\<open>available_indoor_space\<close> and \<^verbatim>\<open>available_outdoor_space\<close> are assigned there and
  never read; they are left out.\<close>

definition initial_state :: "Resources \<Rightarrow> Project list \<Rightarrow> loop_state" where
  "initial_state r catalog =
     \<lparr>self_resources = r, self_projects = catalog, current_projects = [],
      planned_upgrades = [],
      available_budget = available_money_monthly r * investment_period_months r,
      savings_total = 0,
      projection = \<lparr>monthly_details = [], monthly_profits = [], accumulated_savings = [],
                    infrastructure_investments = [], well_savings = []\<rparr>,
      revenue_terms = [], cost_terms = [], water_terms = []\<rparr>"

text \<open>The state after the first \<open>k\<close> iterations of a run over \<open>projection_months\<close>
  months.\<close>

definition state_after ::
  "Resources \<Rightarrow> Project list \<Rightarrow> InfrastructureUpgrade list \<Rightarrow> int \<Rightarrow> nat \<Rightarrow> error + loop_state" where
  "state_after r catalog upgrades projection_months k =
     run_months upgrades projection_months [0..<k] (initial_state r catalog)"

text \<open>The whole loop, \<^verbatim>\<open>range(projection_months)\<close> iterations.\<close>

definition optimize_loop ::
  "Resources \<Rightarrow> Project list \<Rightarrow> InfrastructureUpgrade list \<Rightarrow> int \<Rightarrow> error + loop_state" where
  "optimize_loop r catalog upgrades projection_months =
     state_after r catalog upgrades projection_months (nat projection_months)"

text \<open>\<^verbatim>\<open>optimize_with_infrastructure\<close>: what it returns. The catalogs of projects and
  upgrades (\<^verbatim>\<open>self.projects\<close>, \<^verbatim>\<open>self.infrastructure_upgrades\<close>) are arguments, and the
  parameter \<^verbatim>\<open>aggressive_reinvestment\<close>, which the body never reads, is left out.\<close>

definition optimize_with_infrastructure ::
  "Resources \<Rightarrow> Project list \<Rightarrow> InfrastructureUpgrade list \<Rightarrow> int
     \<Rightarrow> error + (Project list \<times> InfrastructureUpgrade list \<times> financial_projection)" where
  "optimize_with_infrastructure r catalog upgrades projection_months =
     and_then (optimize_loop r catalog upgrades projection_months)
       (\<lambda>s. Inr (current_projects s, planned_upgrades s, projection s))"

section \<open>The catalog and example data\<close>

text \<open>The resources of the module's example run.\<close>

definition example_resources :: Resources where
  "example_resources =
     \<lparr>solar_power_kw = 10, battery_capacity_kwh = 28, daytime_power_available_kwh = 35,
      water_distance_miles = 35, truck_mpg = 15, initial_soil = 0,
      available_money_monthly = 500, investment_period_months = 12,
      work_hours_daily = (8, 10), outdoor_space_acres = 0.5, indoor_space_sqft = 200,
      has_automation_skills = PyBool True, climate_controlled_sqft = 0,
      market_connections = None, reinvestment_rate = 0.7, target_savings = 25000\<rparr>"

text \<open>The same with 3000 a month, so that the well is affordable at once.\<close>

definition rich_resources :: Resources where
  "rich_resources = example_resources\<lparr>available_money_monthly := 3000\<rparr>"

text \<open>A dictionary with one entry per season.\<close>

definition all_seasons :: "real \<Rightarrow> real \<Rightarrow> real \<Rightarrow> real \<Rightarrow> Season \<rightharpoonup> real" where
  "all_seasons a b c d = [SPRING \<mapsto> a, SUMMER \<mapsto> b, FALL \<mapsto> c, WINTER \<mapsto> d]"

text \<open>\<^verbatim>\<open>_initialize_upgrades\<close>: the three upgrades, in the dictionary's order.\<close>

definition well :: InfrastructureUpgrade where
  "well =
     \<lparr>upgrade_name = ''Water Well Installation'', cost = 25000,
      resource_impacts = [''water_cost'' \<mapsto> - 1],
      monthly_operating_cost = 50,
      seasonal_benefits = all_seasons 1 1 1 1\<rparr>"

definition greenhouse :: InfrastructureUpgrade where
  "greenhouse =
     \<lparr>upgrade_name = ''Greenhouse Construction'', cost = 5000,
      resource_impacts = [''climate_controlled_sqft'' \<mapsto> 500, ''indoor_space_sqft'' \<mapsto> 500],
      monthly_operating_cost = 100,
      seasonal_benefits = all_seasons 1.2 1 1.3 1.5\<rparr>"

definition hoop_house :: InfrastructureUpgrade where
  "hoop_house =
     \<lparr>upgrade_name = ''Hoop House'', cost = 2000,
      resource_impacts = [''indoor_space_sqft'' \<mapsto> 300],
      monthly_operating_cost = 30,
      seasonal_benefits = all_seasons 1.3 1.1 1.2 1.2\<rparr>"

definition initialize_upgrades :: "InfrastructureUpgrade list" where
  "initialize_upgrades = [well, greenhouse, hoop_house]"

text \<open>\<^verbatim>\<open>projects["rabbit_breeding"]\<close> of \<^verbatim>\<open>_initialize_projects\<close>, as the constructor
  builds it: stage \<^verbatim>\<open>"setup"\<close> by default, no \<^verbatim>\<open>funded_so_far\<close>.\<close>

definition rabbit_breeding :: Project where
  "rabbit_breeding =
     \<lparr>name = ''Rabbit Breeding'', setup_cost = 500, monthly_cost = 50, monthly_revenue = 100,
      monthly_savings = 0, space_required_sqft = 50, is_indoor = True, daily_hours = 1,
      water_gallons_daily = 5,
      power_usage = \<lparr>kwh_daily = 0.5, time_of_use = ANY_TIME\<rparr>,
      startup_time_months = 2, knowledge_required = 2, sustainability_score = 8,
      synergy_projects = [''compost''], scalability = 8, automation_potential = 5,
      product_type = ''meat'', base_sales_probability = 0.8,
      seasonal_multipliers = all_seasons 1.1 1 1.2 1,
      climate_controlled_benefit = 1.1, current_stage = ''setup'',
      funded_so_far = None\<rparr>"

text \<open>The same project with no startup time, and with no setup cost.\<close>

definition instant_project :: Project where
  "instant_project = rabbit_breeding\<lparr>startup_time_months := 0\<rparr>"

definition free_project :: Project where
  "free_project = rabbit_breeding\<lparr>setup_cost := 0\<rparr>"

text \<open>A project that draws 40 kWh by day, and one that feeds 10 kWh back by day (a
  negative draw).\<close>

definition grow_lamps :: Project where
  "grow_lamps = rabbit_breeding\<lparr>name := ''Grow Lamps'',
     power_usage := \<lparr>kwh_daily = 40, time_of_use = DAYTIME_ONLY\<rparr>\<rparr>"

definition generator :: Project where
  "generator = rabbit_breeding\<lparr>name := ''Generator'',
     power_usage := \<lparr>kwh_daily = - 10, time_of_use = DAYTIME_ONLY\<rparr>\<rparr>"

text \<open>An upgrade that pays its buyer: purchase cost \<open>- 10\<close>, no operating cost.\<close>

definition subsidy :: InfrastructureUpgrade where
  "subsidy =
     \<lparr>upgrade_name = ''Subsidy'', cost = - 10, resource_impacts = Map.empty,
      monthly_operating_cost = 0, seasonal_benefits = all_seasons 1 1 1 1\<rparr>"

text \<open>The revenue scenario: a connection that serves plants with multiplier 1.5, and a
  plants project with base revenue 100, multiplier 1.0 in every season and sale
  probability 0.5.\<close>

definition plant_market :: MarketConnection where
  "plant_market =
     \<lparr>conn_name = ''Plant Market'', product_types = [''plants''], sales_multiplier = 1.5\<rparr>"

definition plant_stand :: Project where
  "plant_stand = rabbit_breeding\<lparr>name := ''Plant Stand'', product_type := ''plants'',
     base_sales_probability := 0.5, seasonal_multipliers := all_seasons 1 1 1 1\<rparr>"

definition market_resources :: Resources where
  "market_resources = example_resources\<lparr>market_connections := Some [plant_market]\<rparr>"

section \<open>The specification's formulas\<close>

text \<open>The factors of the revenue model as the specification words them: the climate
  bonus if the project is indoor and fits the climate-controlled space, and the highest
  sales multiplier among the connections that list the project's product type, if there
  is one.\<close>

definition climate_factor :: "Resources \<Rightarrow> Project \<Rightarrow> real" where
  "climate_factor r p =
     (if is_indoor p \<and> space_required_sqft p \<le> climate_controlled_sqft r
      then climate_controlled_benefit p else 1)"

definition serving_connections :: "Resources \<Rightarrow> Project \<Rightarrow> MarketConnection list" where
  "serving_connections r p =
     (case market_connections r of
        None \<Rightarrow> []
      | Some conns \<Rightarrow> filter (\<lambda>c. product_type p \<in> set (product_types c)) conns)"

definition market_factor :: "Resources \<Rightarrow> Project \<Rightarrow> real" where
  "market_factor r p =
     (if serving_connections r p = [] then 1
      else Max (sales_multiplier ` set (serving_connections r p)))"

definition spec_revenue :: "Resources \<Rightarrow> Project \<Rightarrow> Season \<Rightarrow> real" where
  "spec_revenue r p s =
     monthly_revenue p * (case seasonal_multipliers p s of None \<Rightarrow> 1 | Some m \<Rightarrow> m)
       * climate_factor r p * market_factor r p * base_sales_probability p"

text \<open>The estimator's benefit as the specification words it: nothing unless the
  upgrade's impact map has the key of the climate-controlled space; otherwise, over the
  months of the horizon and the indoor projects, the project's revenue of the month's
  season with the upgrade's multiplier of that season, less the revenue without.\<close>

definition spec_benefit :: "Resources \<Rightarrow> InfrastructureUpgrade \<Rightarrow> Project list \<Rightarrow> int \<Rightarrow> real" where
  "spec_benefit r upgrade current horizon =
     (if resource_impacts upgrade ''climate_controlled_sqft'' = None then 0
      else sum_list (map
             (\<lambda>m. sum_list (map
                (\<lambda>p. spec_revenue r p (from_month m)
                        * (case seasonal_benefits upgrade (from_month m) of
                             None \<Rightarrow> 1 | Some b \<Rightarrow> b)
                      - spec_revenue r p (from_month m))
                (filter is_indoor current)))
             [0..<nat horizon]))"

text \<open>The two sums of the feasibility checker as the specification words them.\<close>

definition spec_daytime_total :: "Project list \<Rightarrow> real" where
  "spec_daytime_total ps =
     sum_list (map (\<lambda>p. if time_of_use (power_usage p) = DAYTIME_ONLY
                         then kwh_daily (power_usage p) else 0) ps)"

definition spec_battery_total :: "Project list \<Rightarrow> real" where
  "spec_battery_total ps =
     sum_list (map (\<lambda>p. if time_of_use (power_usage p) = NIGHT_ONLY
                            \<or> time_of_use (power_usage p) = ANY_TIME
                         then kwh_daily (power_usage p) else 0) ps)"

section \<open>Two runs on resources that differ in the power fields\<close>

text \<open>The state \<open>s\<close> with the battery capacity and the daytime power of its resources
  replaced.\<close>

definition with_power :: "real \<Rightarrow> real \<Rightarrow> Resources \<Rightarrow> Resources" where
  "with_power b d r = r\<lparr>battery_capacity_kwh := b, daytime_power_available_kwh := d\<rparr>"

definition state_with_power :: "real \<Rightarrow> real \<Rightarrow> loop_state \<Rightarrow> loop_state" where
  "state_with_power b d s = s\<lparr>self_resources := with_power b d (self_resources s)\<rparr>"

section \<open>Properties of the pure functions\<close>

lemma and_then_Inr: "and_then m f = Inr y \<longleftrightarrow> (\<exists>x. m = Inr x \<and> f x = Inr y)"
  by (cases m) simp_all

lemma py_max_Max: "py_max xs = Inr (Max (set xs))" if "xs \<noteq> []"
proof (cases xs)
  case Nil
  then show ?thesis using that by simp
next
  case (Cons a list)
  then show ?thesis using Max.set_eq_fold [of a list] by simp
qed

lemma revenue_is_spec_revenue:
  assumes "seasonal_multipliers p s = Some m"
  shows "calculate_market_adjusted_revenue r p s = Inr (spec_revenue r p s)"
  using assms
  by (auto simp: calculate_market_adjusted_revenue_def spec_revenue_def climate_factor_def
      market_factor_def serving_connections_def relevant_connections_def py_max_Max Let_def
      split: option.splits)

lemma score_zero_setup:
  "setup_cost p = 0 \<Longrightarrow> calculate_project_score r p selected = Inl ZeroDivisionError"
  by (simp add: calculate_project_score_def Let_def split: sum.splits)
     (auto simp: calculate_water_costs_def Let_def split: if_splits)

lemma daytime_power_spec: "daytime_power L = spec_daytime_total L"
  unfolding daytime_power_def spec_daytime_total_def by (induction L) simp_all

lemma battery_power_spec: "battery_power L = spec_battery_total L"
  unfolding battery_power_def spec_battery_total_def by (induction L) auto

lemma daytime_power_append:
  "daytime_power (L @ [p]) = daytime_power L
     + (if time_of_use (power_usage p) = DAYTIME_ONLY then kwh_daily (power_usage p) else 0)"
  by (simp add: daytime_power_def)

lemma battery_power_append:
  "battery_power (L @ [p]) = battery_power L
     + (if time_of_use (power_usage p) = NIGHT_ONLY \<or> time_of_use (power_usage p) = ANY_TIME
        then kwh_daily (power_usage p) else 0)"
  by (simp add: battery_power_def)

subsection \<open>The estimator's loops\<close>

lemma project_benefits_sum:
  assumes "\<forall>p\<in>set ps. is_indoor p \<longrightarrow> seasonal_multipliers p s \<noteq> None"
    and "seasonal_benefits u s = Some b"
  shows "project_benefits r u s ps tb =
     Inr (tb + (if resource_impacts u ''climate_controlled_sqft'' = None then 0
                else sum_list (map (\<lambda>p. spec_revenue r p s * b - spec_revenue r p s)
                       (filter is_indoor ps))))"
  using assms
proof (induction ps arbitrary: tb)
  case Nil
  show ?case by simp
next
  case (Cons p ps)
  show ?case
  proof (cases "is_indoor p")
    case False
    with Cons show ?thesis by simp
  next
    case True
    with Cons.prems obtain m where "seasonal_multipliers p s = Some m" by auto
    then have "calculate_market_adjusted_revenue r p s = Inr (spec_revenue r p s)"
      by (rule revenue_is_spec_revenue)
    with True Cons show ?thesis by (simp add: algebra_simps)
  qed
qed

lemma month_benefits_sum:
  assumes "\<forall>p\<in>set ps. is_indoor p \<longrightarrow> (\<forall>s. seasonal_multipliers p s \<noteq> None)"
    and "\<forall>s. seasonal_benefits u s \<noteq> None"
  shows "month_benefits r u ps ms tb =
     Inr (tb + (if resource_impacts u ''climate_controlled_sqft'' = None then 0
                else sum_list (map
                  (\<lambda>m. sum_list (map
                     (\<lambda>p. spec_revenue r p (from_month m)
                             * (case seasonal_benefits u (from_month m) of
                                  None \<Rightarrow> 1 | Some b \<Rightarrow> b)
                           - spec_revenue r p (from_month m))
                     (filter is_indoor ps))) ms)))"
proof (induction ms arbitrary: tb)
  case Nil
  show ?case by simp
next
  case (Cons m ms)
  from assms(2) obtain b where b: "seasonal_benefits u (from_month m) = Some b" by auto
  from assms(1) have "\<forall>p\<in>set ps. is_indoor p \<longrightarrow> seasonal_multipliers p (from_month m) \<noteq> None"
    by simp
  from project_benefits_sum [OF this b] show ?case
    by (simp add: Cons.IH b)
qed

lemma month_benefits_Nil: "month_benefits r u [] ms tb = Inr tb"
  by (induction ms) simp_all

lemma roi_no_projects:
  "calculate_infrastructure_roi r u [] h =
     Inr (if total_cost u h > 0 then (0 - total_cost u h) / total_cost u h else 0)"
  by (simp add: calculate_infrastructure_roi_def month_benefits_Nil)

section \<open>Properties of the simulation loop\<close>

subsection \<open>At most one new upgrade per month\<close>

lemma best_of_mem: "best_of b kb rest = b \<or> best_of b kb rest \<in> fst ` set rest"
  by (induction b kb rest rule: best_of.induct) (auto split: if_splits)

lemma best_upgrade_mem:
  assumes "best_upgrade r current horizon affordable = Inr best"
  shows "best \<in> set affordable"
proof -
  from assms obtain keys where
    "(case zip affordable keys of [] \<Rightarrow> Inl ValueError
      | (u, k) # rest \<Rightarrow> Inr (best_of u k rest)) = Inr best"
    by (auto simp: best_upgrade_def and_then_Inr)
  then obtain u k rest where zk: "zip affordable keys = (u, k) # rest"
    and b: "best = best_of u k rest"
    by (auto split: list.splits)
  have "fst ` set (zip affordable keys) \<subseteq> set affordable"
    by (auto dest: set_zip_leftD)
  with zk have "u \<in> set affordable" "fst ` set rest \<subseteq> set affordable" by auto
  with b best_of_mem [of u k rest] show ?thesis by auto
qed

lemma implement_upgrade_planned:
  assumes "implement_upgrade upgrades horizon r current planned amount acts
             = Inr (planned', amount', r', acts')"
  shows "planned' = planned
     \<or> (\<exists>u. planned' = planned @ [u] \<and> u \<in> set upgrades \<and> u \<notin> set planned)"
proof (cases "affordable_upgrades upgrades planned amount = []")
  case True
  with assms show ?thesis by (simp add: implement_upgrade_def)
next
  case False
  with assms obtain best where
    b: "best_upgrade r current horizon (affordable_upgrades upgrades planned amount) = Inr best"
    and p: "planned' = planned @ [best]"
    by (auto simp: implement_upgrade_def Let_def and_then_Inr)
  from best_upgrade_mem [OF b] have "best \<in> set upgrades" "best \<notin> set planned"
    by (auto simp: affordable_upgrades_def)
  with p show ?thesis by blast
qed

lemma period_planned:
  assumes "period upgrades pm m s = Inr s'"
  shows "planned_upgrades s' = planned_upgrades s
     \<or> (\<exists>u. planned_upgrades s' = planned_upgrades s @ [u] \<and> u \<in> set upgrades
             \<and> u \<notin> set (planned_upgrades s))"
proof -
  from assms obtain horizon r current amount acts planned' amount' r' acts' where
    i: "implement_upgrade upgrades horizon r current (planned_upgrades s) amount acts
          = Inr (planned', amount', r', acts')"
    and p: "planned_upgrades s' = planned'"
    by (auto simp: period_def Let_def and_then_Inr split: prod.splits)
  from implement_upgrade_planned [OF i] p show ?thesis by simp
qed

lemma run_months_append:
  "run_months ups pm (xs @ ys) s = and_then (run_months ups pm xs s) (run_months ups pm ys)"
proof (induction xs arbitrary: s)
  case Nil
  show ?case by simp
next
  case (Cons x xs)
  show ?case by (cases "period ups pm x s") (simp_all add: Cons.IH)
qed

lemma run_months_planned:
  assumes "run_months ups pm ms s = Inr s'" and "distinct (planned_upgrades s)"
  shows "distinct (planned_upgrades s')
     \<and> length (planned_upgrades s') \<le> length (planned_upgrades s) + length ms"
  using assms
proof (induction ms arbitrary: s)
  case Nil
  then show ?case by simp
next
  case (Cons m ms)
  from Cons.prems(1) obtain t where t: "period ups pm m s = Inr t"
    and r: "run_months ups pm ms t = Inr s'"
    by (auto simp: and_then_Inr)
  from period_planned [OF t] Cons.prems(2)
  have d: "distinct (planned_upgrades t)"
    and l: "length (planned_upgrades t) \<le> Suc (length (planned_upgrades s))"
    by auto
  from Cons.IH [OF r d] l show ?case by simp
qed

text \<open>A run that reaches month \<open>k + 1\<close> went through month \<open>k\<close>.\<close>

lemma state_after_Suc:
  "state_after r catalog ups pm (Suc k) =
     and_then (state_after r catalog ups pm k) (period ups pm k)"
proof -
  have "run_months ups pm [k] = period ups pm k"
  proof
    fix s show "run_months ups pm [k] s = period ups pm k s"
      by (cases "period ups pm k s") simp_all
  qed
  then show ?thesis by (simp add: state_after_def run_months_append)
qed

lemma state_after_earlier:
  assumes "state_after r catalog ups pm n = Inr final" and "k \<le> n"
  shows "\<exists>s. state_after r catalog ups pm k = Inr s"
proof -
  from assms(2) have "[0..<n] = [0..<k] @ [k..<n]"
    by (metis le_add_diff_inverse upt_add_eq_append zero_le)
  with assms(1) show ?thesis
    by (auto simp: state_after_def run_months_append and_then_Inr)
qed

subsection \<open>No project is ever active\<close>

text \<open>The loop never appends to \<^verbatim>\<open>current_projects\<close>: the list stays empty, and with it
  the revenue, the recurring cost and the water cost of every month are 0.\<close>

lemma period_empty:
  assumes "current_projects s = []" and "period upgrades pm m s = Inr s'"
  shows "current_projects s' = [] \<and> revenue_terms s' = revenue_terms s @ [0]
     \<and> water_terms s' = water_terms s @ [0] \<and> cost_terms s' = cost_terms s @ [0]"
  using assms by (auto simp: period_def Let_def and_then_Inr split: prod.splits)

lemma run_months_empty:
  assumes "current_projects s = []" and "run_months ups pm ms s = Inr s'"
  shows "current_projects s' = []
     \<and> revenue_terms s' = revenue_terms s @ replicate (length ms) 0
     \<and> water_terms s' = water_terms s @ replicate (length ms) 0"
  using assms
proof (induction ms arbitrary: s)
  case Nil
  then show ?case by simp
next
  case (Cons m ms)
  from Cons.prems(2) obtain t where t: "period ups pm m s = Inr t"
    and r: "run_months ups pm ms t = Inr s'"
    by (auto simp: and_then_Inr)
  from period_empty [OF Cons.prems(1) t] Cons.IH [OF _ r] show ?case
    by (simp add: replicate_app_Cons_same)
qed

lemma no_active_projects:
  assumes "optimize_loop r catalog ups pm = Inr final"
  shows "current_projects final = [] \<and> revenue_terms final = replicate (nat pm) 0
     \<and> water_terms final = replicate (nat pm) 0"
  using run_months_empty [of "initial_state r catalog" ups pm "[0..<nat pm]" final] assms
  by (simp add: optimize_loop_def state_after_def initial_state_def)


subsection \<open>A project without the funding attribute ends the run\<close>

lemma fund_projects_no_attribute:
  assumes "current_stage p = ''setup''" and "funded_so_far p = None"
  shows "fund_projects [] (p # rest) budget acts = Inl AttributeError"
  using assms by (simp add: project_in_def)

lemma first_month_no_attribute:
  assumes "current_stage p = ''setup''" and "funded_so_far p = None"
  shows "period ups pm m (initial_state r (p # rest)) = Inl AttributeError"
  using assms by (simp add: period_def initial_state_def project_in_def)

lemma run_no_attribute:
  assumes "current_stage p = ''setup''" and "funded_so_far p = None" and "0 < pm"
  shows "optimize_with_infrastructure r (p # rest) ups pm = Inl AttributeError"
proof -
  from assms(3) obtain n where "nat pm = Suc n" by (cases "nat pm") auto
  then have "[0..<nat pm] = 0 # [1..<Suc n]" by (simp add: upt_rec)
  with first_month_no_attribute [OF assms(1,2)] show ?thesis
    by (simp add: optimize_with_infrastructure_def optimize_loop_def state_after_def)
qed

text \<open>With the attribute present and enough budget, the project is funded in full, moves
  to the stage \<^verbatim>\<open>"growth"\<close> and the action is recorded; it does not enter
  \<^verbatim>\<open>current_projects\<close>, which is no argument of the result.\<close>

lemma fund_projects_funded:
  assumes "current_stage p = ''setup''" and "funded_so_far p = Some f"
    and "setup_cost p - f \<le> budget"
  shows "fund_projects [] [p] budget acts =
     Inr ([p\<lparr>funded_so_far := Some (setup_cost p), current_stage := ''growth''\<rparr>],
          budget - (setup_cost p - f), acts @ [''Funded '' @ name p])"
  using assms by (simp add: project_in_def Let_def)

subsection \<open>The loop never reads the two power fields\<close>

lemma revenue_with_power [simp]:
  "calculate_market_adjusted_revenue (with_power b d r) p s
     = calculate_market_adjusted_revenue r p s"
  by (simp add: calculate_market_adjusted_revenue_def with_power_def Let_def
      split: option.splits)

lemma water_with_power [simp]:
  "calculate_water_costs (with_power b d r) g = calculate_water_costs r g"
  by (simp add: calculate_water_costs_def with_power_def)

lemma project_benefits_with_power [simp]:
  "project_benefits (with_power b d r) u s ps tb = project_benefits r u s ps tb"
  by (induction ps arbitrary: tb) (simp_all split: sum.splits option.splits)

lemma month_benefits_with_power [simp]:
  "month_benefits (with_power b d r) u ps ms tb = month_benefits r u ps ms tb"
  by (induction ms arbitrary: tb) (simp_all split: sum.splits)

lemma roi_with_power [simp]:
  "calculate_infrastructure_roi (with_power b d r) u ps h = calculate_infrastructure_roi r u ps h"
  by (simp add: calculate_infrastructure_roi_def)

lemma best_upgrade_with_power [simp]:
  "best_upgrade (with_power b d r) current h affordable = best_upgrade r current h affordable"
  by (simp add: best_upgrade_def)

lemma with_power_twice [simp]: "with_power b' d' (with_power b d r) = with_power b' d' r"
  by (simp add: with_power_def)

lemma reinvestment_rate_with_power [simp]:
  "reinvestment_rate (with_power b d r) = reinvestment_rate r"
  by (simp add: with_power_def)

lemma apply_impacts_with_power:
  "apply_resource_impacts impacts (with_power b d r) =
     map_sum id
       (with_power (bump impacts ''battery_capacity_kwh'' b)
          (bump impacts ''daytime_power_available_kwh'' d))
       (apply_resource_impacts impacts r)"
  by (simp add: apply_resource_impacts_def with_power_def split: option.splits)

lemma implement_upgrade_with_power:
  "\<exists>b' d'. implement_upgrade ups h (with_power b d r) current planned amount acts =
     map_sum id (\<lambda>(pl, am, r', ac). (pl, am, with_power b' d' r', ac))
       (implement_upgrade ups h r current planned amount acts)"
proof (cases "affordable_upgrades ups planned amount = []")
  case True
  then show ?thesis by (auto simp: implement_upgrade_def)
next
  case False
  show ?thesis
  proof (cases "best_upgrade r current h (affordable_upgrades ups planned amount)")
    case (Inl e)
    with False show ?thesis by (simp add: implement_upgrade_def)
  next
    case (Inr best)
    show ?thesis
    proof (cases "apply_resource_impacts (resource_impacts best) r")
      case (Inl e)
      with False Inr show ?thesis
        by (simp add: implement_upgrade_def apply_impacts_with_power)
    next
      case new: (Inr r')
      with False Inr have
        "implement_upgrade ups h (with_power b d r) current planned amount acts =
           map_sum id (\<lambda>(pl, am, r', ac).
               (pl, am, with_power (bump (resource_impacts best) ''battery_capacity_kwh'' b)
                  (bump (resource_impacts best) ''daytime_power_available_kwh'' d) r', ac))
             (implement_upgrade ups h r current planned amount acts)"
        by (simp add: implement_upgrade_def apply_impacts_with_power)
      then show ?thesis by blast
    qed
  qed
qed

lemma and_then_ex:
  assumes "\<And>x. m = Inr x \<Longrightarrow> \<exists>b d. f x = map_sum id (P b d) (g x)"
  shows "\<exists>b d. and_then m f = map_sum id (P b d) (and_then m g)"
  using assms by (cases m) simp_all

lemma period_with_power:
  "\<exists>b' d'. period ups pm m (state_with_power b d s) =
     map_sum id (state_with_power b' d') (period ups pm m s)"
proof -
  have fields [simp]:
    "current_projects (state_with_power b d s) = current_projects s"
    "self_projects (state_with_power b d s) = self_projects s"
    "available_budget (state_with_power b d s) = available_budget s"
    "planned_upgrades (state_with_power b d s) = planned_upgrades s"
    "savings_total (state_with_power b d s) = savings_total s"
    "projection (state_with_power b d s) = projection s"
    "revenue_terms (state_with_power b d s) = revenue_terms s"
    "cost_terms (state_with_power b d s) = cost_terms s"
    "water_terms (state_with_power b d s) = water_terms s"
    "self_resources (state_with_power b d s) = with_power b d (self_resources s)"
    by (simp_all add: state_with_power_def)
  show ?thesis
    unfolding period_def Let_def
    apply (simp only: fields revenue_with_power water_with_power)
    apply (rule and_then_ex)
    apply (rule and_then_ex)
    apply (simp only: split_paired_all prod.case)
    apply (rule and_then_ex)
    apply (rule and_then_ex)
    subgoal for current catalog budget acts revenue_sum water_costs
      using implement_upgrade_with_power [of ups "pm - int m" b d "self_resources s" current
          "planned_upgrades s" "revenue_sum - sum_list (map monthly_cost current) - water_costs + budget" acts]
      apply (elim exE)
      subgoal for b' d'
        apply (rule exI [of _ b'], rule exI [of _ d'])
        apply (cases "implement_upgrade ups (pm - int m) (self_resources s) current
            (planned_upgrades s) (revenue_sum - sum_list (map monthly_cost current) - water_costs + budget) acts")
         apply (simp_all add: state_with_power_def split: prod.splits)
        done
      done
    done
qed

lemma run_months_with_power:
  "\<exists>b' d'. run_months ups pm ms (state_with_power b d s) =
     map_sum id (state_with_power b' d') (run_months ups pm ms s)"
proof (induction ms arbitrary: b d s)
  case Nil
  show ?case by (auto intro: exI [of _ b])
next
  case (Cons m ms)
  from period_with_power [of ups pm m b d s] obtain b1 d1 where
    p: "period ups pm m (state_with_power b d s) =
          map_sum id (state_with_power b1 d1) (period ups pm m s)"
    by blast
  show ?case
  proof (cases "period ups pm m s")
    case (Inl e)
    with p show ?thesis by simp
  next
    case (Inr t)
    with p Cons.IH [of b1 d1 t] show ?thesis by simp
  qed
qed

lemma initial_state_with_power:
  "initial_state (with_power b d r) catalog = state_with_power b d (initial_state r catalog)"
  by (simp add: initial_state_def state_with_power_def with_power_def)

section \<open>The claims\<close>

lemmas run_simps =
  optimize_with_infrastructure_def optimize_loop_def state_after_def initial_state_def
  period_def implement_upgrade_def affordable_upgrades_def best_upgrade_def roi_no_projects
  total_cost_def apply_resource_impacts_def non_numeric_attributes_def builtin_attributes_def
  bump_def record_month_def project_in_def Let_def upt_rec

lemmas data_simps =
  example_resources_def rich_resources_def market_resources_def initialize_upgrades_def
  well_def greenhouse_def hoop_house_def subsidy_def all_seasons_def rabbit_breeding_def
  instant_project_def free_project_def grow_lamps_def generator_def plant_market_def
  plant_stand_def

text \<open>
  Claim C1. \<^emph>\<open>A project whose startup time is 0 contributes nonzero revenue to the
  totals of period 0.\<close> The code does not: the project of the catalog that needs no
  startup time would earn 88 in spring, but built by its constructor it has no
  \<^verbatim>\<open>funded_so_far\<close> and the first month ends in \<^verbatim>\<open>AttributeError\<close>; and with the
  attribute set by hand the project is funded, yet never enters \<^verbatim>\<open>current_projects\<close>,
  so the revenue of period 0 is 0.
\<close>

theorem startup_zero_earns_nothing:
  "calculate_market_adjusted_revenue example_resources instant_project (from_month 0) = Inr 88
   \<and> optimize_loop example_resources [instant_project] initialize_upgrades 1
        = Inl AttributeError
   \<and> and_then
        (optimize_loop example_resources [instant_project\<lparr>funded_so_far := Some 0\<rparr>]
           initialize_upgrades 1)
        (\<lambda>s. Inr (map current_stage (self_projects s), current_projects s, revenue_terms s,
                   map actions (monthly_details (projection s))))
      = Inr ([''growth''], [], [0],
             [[''Funded Rabbit Breeding'', ''Implemented upgrade: Greenhouse Construction'']])"
proof -
  have "calculate_market_adjusted_revenue example_resources instant_project (from_month 0) = Inr 88"
    by (simp add: calculate_market_adjusted_revenue_def from_month_def Let_def data_simps)
  moreover have "optimize_loop example_resources [instant_project] initialize_upgrades 1
      = Inl AttributeError"
    by (simp add: run_simps data_simps)
  moreover have "and_then
        (optimize_loop example_resources [instant_project\<lparr>funded_so_far := Some 0\<rparr>]
           initialize_upgrades 1)
        (\<lambda>s. Inr (map current_stage (self_projects s), current_projects s, revenue_terms s,
                   map actions (monthly_details (projection s))))
      = Inr ([''growth''], [], [0],
             [[''Funded Rabbit Breeding'', ''Implemented upgrade: Greenhouse Construction'']])"
    by (simp add: run_simps data_simps)
  ultimately show ?thesis by blast
qed

text \<open>
  Claim C2. \<^emph>\<open>Every catalog project that is not active and in stage "setup" is funded
  from the budget through a per-project counter that persists, and once funded it is
  marked "growth" and a "Funded X" action is recorded.\<close> The counter is an attribute no
  project has: the catalog's own rabbit breeding project, as its constructor builds it,
  ends the default run of 24 months in its first month with \<^verbatim>\<open>AttributeError\<close>; nothing
  is funded and no action is recorded.
\<close>

theorem funding_raises_attribute_error:
  "optimize_with_infrastructure example_resources [rabbit_breeding] initialize_upgrades 24
     = Inl AttributeError"
  by (rule run_no_attribute) (simp_all add: rabbit_breeding_def)


text \<open>
  Claim C4. \<^emph>\<open>The revenue model returns base monthly revenue times the season's
  multiplier, times the climate bonus if the project is indoor and fits the
  climate-controlled space, times the highest sales multiplier of the connections that
  list the product type if there is one, times the sale probability; the plants scenario
  gives 75.\<close> Here \<open>m\<close> is the project's multiplier for the season.
\<close>

theorem revenue_model:
  assumes "seasonal_multipliers p s = Some m"
  shows "calculate_market_adjusted_revenue r p s =
           Inr (monthly_revenue p * m * climate_factor r p * market_factor r p
                  * base_sales_probability p)
     \<and> (market_connections r = Some [c] \<and> ''plants'' \<in> set (product_types c)
          \<and> sales_multiplier c = 1.5 \<and> product_type p = ''plants''
          \<and> monthly_revenue p = 100 \<and> m = 1 \<and> base_sales_probability p = 0.5
          \<and> climate_factor r p = 1
        \<longrightarrow> calculate_market_adjusted_revenue r p s = Inr 75)"
proof -
  have general: "calculate_market_adjusted_revenue r p s =
           Inr (monthly_revenue p * m * climate_factor r p * market_factor r p
                  * base_sales_probability p)"
    using revenue_is_spec_revenue [OF assms] assms by (simp add: spec_revenue_def)
  have scenario: "calculate_market_adjusted_revenue r p s = Inr 75"
    if "market_connections r = Some [c]" and "''plants'' \<in> set (product_types c)"
      and "sales_multiplier c = 1.5" and "product_type p = ''plants''"
      and "monthly_revenue p = 100" and "m = 1" and "base_sales_probability p = 0.5"
      and "climate_factor r p = 1"
  proof -
    from that(1-4) have "market_factor r p = 1.5"
      by (simp add: market_factor_def serving_connections_def)
    with general that(5-8) show ?thesis by simp
  qed
  from general scenario show ?thesis by blast
qed

theorem revenue_model_witness:
  "seasonal_multipliers plant_stand SPRING = Some 1
   \<and> market_factor market_resources plant_stand = 1.5
   \<and> climate_factor market_resources plant_stand = 1
   \<and> calculate_market_adjusted_revenue market_resources plant_stand SPRING = Inr 75"
proof -
  have m: "seasonal_multipliers plant_stand SPRING = Some 1"
    by (simp add: data_simps)
  have mf: "market_factor market_resources plant_stand = 1.5"
    by (simp add: market_factor_def serving_connections_def data_simps)
  have cf: "climate_factor market_resources plant_stand = 1"
    by (simp add: climate_factor_def data_simps)
  have "monthly_revenue plant_stand = 100" "base_sales_probability plant_stand = 0.5"
    by (simp_all add: data_simps)
  with revenue_model [OF m, of market_resources] m mf cf show ?thesis by simp
qed

text \<open>
  Claim C5. \<^emph>\<open>The water cost is ((g * 30) / 100) round trips a month, times the round-trip
  distance, times 3.50 divided by the fuel economy; zero gallons cost nothing; 10 gallons
  a day over 20 miles at 15 mpg cost 28.\<close> The division is defined where the fuel economy
  is not 0; at 0 the function raises \<^verbatim>\<open>ZeroDivisionError\<close>.
\<close>

theorem water_cost_formula:
  assumes "truck_mpg r \<noteq> 0"
  shows "calculate_water_costs r g
           = Inr (((g * 30) / 100) * (2 * water_distance_miles r) * (3.5 / truck_mpg r))
     \<and> calculate_water_costs r 0 = Inr 0
     \<and> (water_distance_miles r = 20 \<and> truck_mpg r = 15 \<longrightarrow> calculate_water_costs r 10 = Inr 28)"
  using assms by (simp add: calculate_water_costs_def Let_def)

theorem water_cost_formula_witness:
  "truck_mpg (example_resources\<lparr>water_distance_miles := 20\<rparr>) \<noteq> 0
   \<and> calculate_water_costs (example_resources\<lparr>water_distance_miles := 20\<rparr>) 10 = Inr 28
   \<and> calculate_water_costs (example_resources\<lparr>water_distance_miles := 20\<rparr>) 0 = Inr 0"
proof -
  have h: "truck_mpg (example_resources\<lparr>water_distance_miles := 20\<rparr>) \<noteq> 0"
    by (simp add: example_resources_def)
  from water_cost_formula [OF h, of 10] h show ?thesis
    by (simp add: example_resources_def)
qed

text \<open>
  Claim C6. \<^emph>\<open>With setup cost 0 the scoring function is guarded against the division by
  zero of its ROI term and takes 0 for it.\<close> It is not guarded: the rabbit breeding project
  with setup cost 0 makes the score raise \<^verbatim>\<open>ZeroDivisionError\<close>, while the estimator of
  the upgrades, on a total cost of 0, returns 0.
\<close>

theorem score_divides_by_zero:
  "setup_cost free_project = 0
   \<and> calculate_project_score example_resources free_project [] = Inl ZeroDivisionError
   \<and> calculate_infrastructure_roi example_resources (subsidy\<lparr>cost := 0\<rparr>) [] 12 = Inr 0"
proof -
  have z: "setup_cost free_project = 0" by (simp add: data_simps)
  from score_zero_setup [OF z] z show ?thesis
    by (simp add: roi_no_projects total_cost_def subsidy_def)
qed

text \<open>
  Claim C7, as amended. \<^emph>\<open>When the total cost (purchase cost plus operating cost times
  horizon) is 0 or less, the estimator returns 0 whatever the benefit; when it is
  positive, it returns (total benefit - total cost) / total cost, where the benefit
  comes from the indoor projects only, and only when the upgrade's impact map has the key
  of the climate-controlled space.\<close> The tables of the indoor projects and of the upgrade
  have an entry for every season (a missing one raises \<^verbatim>\<open>KeyError\<close>).
\<close>

theorem infrastructure_roi_value:
  assumes "\<forall>p\<in>set current. is_indoor p \<longrightarrow> (\<forall>s. seasonal_multipliers p s \<noteq> None)"
    and "\<forall>s. seasonal_benefits upgrade s \<noteq> None"
  shows "calculate_infrastructure_roi r upgrade current horizon =
           Inr (if total_cost upgrade horizon \<le> 0 then 0
                else (spec_benefit r upgrade current horizon - total_cost upgrade horizon)
                       / total_cost upgrade horizon)
     \<and> (filter is_indoor current = [] \<longrightarrow> spec_benefit r upgrade current horizon = 0)
     \<and> (resource_impacts upgrade ''climate_controlled_sqft'' = None
          \<longrightarrow> spec_benefit r upgrade current horizon = 0)"
proof -
  have "month_benefits r upgrade current [0..<nat horizon] 0
          = Inr (spec_benefit r upgrade current horizon)"
    using month_benefits_sum [OF assms, of r "[0..<nat horizon]" 0]
    by (simp add: spec_benefit_def)
  then show ?thesis
    by (auto simp: calculate_infrastructure_roi_def spec_benefit_def)
qed

theorem infrastructure_roi_value_witness:
  "spec_benefit example_resources greenhouse [rabbit_breeding] 1 = 17.6
   \<and> total_cost greenhouse 1 = 5100
   \<and> calculate_infrastructure_roi example_resources greenhouse [rabbit_breeding] 1
       = Inr ((17.6 - 5100) / 5100)
   \<and> calculate_infrastructure_roi example_resources (subsidy\<lparr>cost := 0\<rparr>) [rabbit_breeding] 1
       = Inr 0"
proof -
  have p: "\<forall>p\<in>set [rabbit_breeding]. is_indoor p \<longrightarrow> (\<forall>s. seasonal_multipliers p s \<noteq> None)"
  proof (intro ballI impI allI)
    fix p s assume "p \<in> set [rabbit_breeding]"
    then show "seasonal_multipliers p s \<noteq> None"
      by (cases s) (simp_all add: data_simps)
  qed
  have g: "\<forall>s. seasonal_benefits greenhouse s \<noteq> None"
  proof
    fix s show "seasonal_benefits greenhouse s \<noteq> None"
      by (cases s) (simp_all add: data_simps)
  qed
  have f: "\<forall>s. seasonal_benefits (subsidy\<lparr>cost := 0\<rparr>) s \<noteq> None"
  proof
    fix s show "seasonal_benefits (subsidy\<lparr>cost := 0\<rparr>) s \<noteq> None"
      by (cases s) (simp_all add: data_simps)
  qed
  have b: "spec_benefit example_resources greenhouse [rabbit_breeding] 1 = 17.6"
    by (simp add: spec_benefit_def spec_revenue_def climate_factor_def market_factor_def
        serving_connections_def from_month_def data_simps)
  have c: "total_cost greenhouse 1 = 5100" "total_cost (subsidy\<lparr>cost := 0\<rparr>) 1 = 0"
    by (simp_all add: total_cost_def data_simps)
  from infrastructure_roi_value [OF p g, of example_resources 1]
    infrastructure_roi_value [OF p f, of example_resources 1] b c
  show ?thesis by simp
qed

text \<open>The claim as written fails where the total cost is negative: the estimator
  returns 0, not the quotient, which is \<open>- 1\<close> here.\<close>

theorem infrastructure_roi_counterexample:
  "total_cost subsidy 1 = - 10
   \<and> spec_benefit example_resources subsidy [] 1 = 0
   \<and> (spec_benefit example_resources subsidy [] 1 - total_cost subsidy 1) / total_cost subsidy 1
       = - 1
   \<and> calculate_infrastructure_roi example_resources subsidy [] 1 = Inr 0"
  by (simp add: roi_no_projects total_cost_def spec_benefit_def subsidy_def)

text \<open>
  Claim C8. \<^emph>\<open>At most one upgrade is applied per period; the list of applied upgrades
  only grows, by appending, and is never longer than the number of months; no upgrade is
  applied twice.\<close> In a run that completes, the list after month \<open>k\<close> is the list before
  it, or that list with one upgrade of the catalog appended that was not in it.
\<close>

theorem one_upgrade_per_period:
  assumes "optimize_loop r catalog upgrades pm = Inr final"
  shows "length (planned_upgrades final) \<le> nat pm \<and> distinct (planned_upgrades final)
     \<and> (\<forall>k < nat pm. \<exists>s s'.
           state_after r catalog upgrades pm k = Inr s
           \<and> state_after r catalog upgrades pm (Suc k) = Inr s'
           \<and> length (planned_upgrades s) \<le> k \<and> distinct (planned_upgrades s')
           \<and> (planned_upgrades s' = planned_upgrades s
               \<or> (\<exists>u. planned_upgrades s' = planned_upgrades s @ [u]
                       \<and> u \<in> set upgrades \<and> u \<notin> set (planned_upgrades s))))"
proof -
  have bound: "distinct (planned_upgrades s) \<and> length (planned_upgrades s) \<le> n"
    if "state_after r catalog upgrades pm n = Inr s" for n s
    using run_months_planned [of upgrades pm "[0..<n]" "initial_state r catalog" s] that
    by (simp add: state_after_def initial_state_def)
  from assms have fin: "state_after r catalog upgrades pm (nat pm) = Inr final"
    by (simp add: optimize_loop_def)
  have step: "\<exists>s s'. state_after r catalog upgrades pm k = Inr s
           \<and> state_after r catalog upgrades pm (Suc k) = Inr s'
           \<and> length (planned_upgrades s) \<le> k \<and> distinct (planned_upgrades s')
           \<and> (planned_upgrades s' = planned_upgrades s
               \<or> (\<exists>u. planned_upgrades s' = planned_upgrades s @ [u]
                       \<and> u \<in> set upgrades \<and> u \<notin> set (planned_upgrades s)))"
    if "k < nat pm" for k
  proof -
    from that have "Suc k \<le> nat pm" by simp
    from state_after_earlier [OF fin this] obtain s' where
      s': "state_after r catalog upgrades pm (Suc k) = Inr s'" by blast
    then obtain s where s: "state_after r catalog upgrades pm k = Inr s"
      and p: "period upgrades pm k s = Inr s'"
      by (auto simp: state_after_Suc and_then_Inr)
    from bound [OF s] bound [OF s'] period_planned [OF p] s s' show ?thesis by blast
  qed
  from bound [OF fin] step show ?thesis by blast
qed

theorem one_upgrade_per_period_witness:
  "\<exists>final s s'.
     optimize_loop example_resources [] initialize_upgrades 3 = Inr final
     \<and> planned_upgrades final = [greenhouse]
     \<and> length (planned_upgrades final) \<le> nat 3 \<and> distinct (planned_upgrades final)
     \<and> state_after example_resources [] initialize_upgrades 3 0 = Inr s
     \<and> state_after example_resources [] initialize_upgrades 3 (Suc 0) = Inr s'
     \<and> planned_upgrades s = [] \<and> planned_upgrades s' = [greenhouse]
     \<and> length (planned_upgrades s) \<le> 0 \<and> distinct (planned_upgrades s')"
proof -
  obtain final where f: "optimize_loop example_resources [] initialize_upgrades 3 = Inr final"
    and pf: "planned_upgrades final = [greenhouse]"
    by (simp add: run_simps data_simps)
  obtain s0 where s0: "state_after example_resources [] initialize_upgrades 3 0 = Inr s0"
    and p0: "planned_upgrades s0 = []"
    by (simp add: run_simps data_simps)
  obtain s1 where s1: "state_after example_resources [] initialize_upgrades 3 (Suc 0) = Inr s1"
    and p1: "planned_upgrades s1 = [greenhouse]"
    by (simp add: run_simps data_simps)
  have k: "(0::nat) < nat 3" by simp
  from one_upgrade_per_period [OF f] k s0 s1
  have "length (planned_upgrades final) \<le> nat 3 \<and> distinct (planned_upgrades final)
      \<and> length (planned_upgrades s0) \<le> 0 \<and> distinct (planned_upgrades s1)"
    by fastforce
  with f pf s0 p0 s1 p1 show ?thesis by blast
qed

text \<open>
  Claim C9, as amended. \<^emph>\<open>The check succeeds iff the summed daytime-only draw is at most
  the available daytime power and the summed night-plus-anytime draw is at most 80% of
  the battery capacity; and for every list L and every project p whose daily draw is not
  negative, appending p to L does not lower the daytime or the battery total, so if L
  with p is feasible then L is.\<close>
\<close>

theorem feasibility_monotone:
  assumes "0 \<le> kwh_daily (power_usage p)"
  shows "(check_power_feasibility r L \<longleftrightarrow>
            spec_daytime_total L \<le> daytime_power_available_kwh r
            \<and> spec_battery_total L \<le> 0.8 * battery_capacity_kwh r)
     \<and> daytime_power L \<le> daytime_power (L @ [p])
     \<and> battery_power L \<le> battery_power (L @ [p])
     \<and> (check_power_feasibility r (L @ [p]) \<longrightarrow> check_power_feasibility r L)"
proof -
  have "check_power_feasibility r L \<longleftrightarrow>
            spec_daytime_total L \<le> daytime_power_available_kwh r
            \<and> spec_battery_total L \<le> 0.8 * battery_capacity_kwh r"
    by (simp add: check_power_feasibility_def daytime_power_spec battery_power_spec mult.commute)
  moreover from assms have "daytime_power L \<le> daytime_power (L @ [p])"
    and "battery_power L \<le> battery_power (L @ [p])"
    by (simp_all add: daytime_power_append battery_power_append)
  ultimately show ?thesis by (auto simp: check_power_feasibility_def)
qed

theorem feasibility_monotone_witness:
  "0 \<le> kwh_daily (power_usage rabbit_breeding)
   \<and> check_power_feasibility example_resources ([rabbit_breeding] @ [rabbit_breeding])
   \<and> check_power_feasibility example_resources [rabbit_breeding]
   \<and> battery_power [rabbit_breeding] = 0.5
   \<and> battery_power ([rabbit_breeding] @ [rabbit_breeding]) = 1"
proof -
  have h: "0 \<le> kwh_daily (power_usage rabbit_breeding)" by (simp add: data_simps)
  have f: "check_power_feasibility example_resources ([rabbit_breeding] @ [rabbit_breeding])"
    by (simp add: check_power_feasibility_def daytime_power_def battery_power_def data_simps)
  have b: "battery_power [rabbit_breeding] = 0.5"
    "battery_power ([rabbit_breeding] @ [rabbit_breeding]) = 1"
    by (simp_all add: battery_power_def data_simps)
  from feasibility_monotone [OF h, of example_resources "[rabbit_breeding]"] h f b
  show ?thesis by blast
qed

text \<open>The claim as written fails for a project with a negative draw: the lamps alone are
  not feasible, the lamps with the generator appended are, and the daytime total went
  down.\<close>

theorem feasibility_counterexample:
  "check_power_feasibility example_resources ([grow_lamps] @ [generator])
   \<and> \<not> check_power_feasibility example_resources [grow_lamps]
   \<and> daytime_power ([grow_lamps] @ [generator]) < daytime_power [grow_lamps]"
  by (simp add: check_power_feasibility_def daytime_power_def battery_power_def data_simps)

text \<open>
  Claim C10. \<^emph>\<open>Two resource snapshots that differ only in the battery capacity and the
  available daytime power give the same result of the simulation loop (active projects,
  applied upgrades, financial trace, or the same exception) for the same catalogs and
  number of months.\<close>
\<close>

theorem power_fields_do_not_matter:
  "optimize_with_infrastructure
     (r\<lparr>battery_capacity_kwh := b, daytime_power_available_kwh := d\<rparr>) catalog upgrades pm
   = optimize_with_infrastructure r catalog upgrades pm"
proof -
  obtain b' d' where
    "run_months upgrades pm [0..<nat pm] (state_with_power b d (initial_state r catalog)) =
       map_sum id (state_with_power b' d')
         (run_months upgrades pm [0..<nat pm] (initial_state r catalog))"
    using run_months_with_power by blast
  then have "optimize_with_infrastructure (with_power b d r) catalog upgrades pm
      = optimize_with_infrastructure r catalog upgrades pm"
    by (cases "run_months upgrades pm [0..<nat pm] (initial_state r catalog)")
       (simp_all add: optimize_with_infrastructure_def optimize_loop_def state_after_def
          initial_state_with_power state_with_power_def)
  then show ?thesis by (simp add: with_power_def)
qed

end
